theory Spec2Isabelle
  imports Complex_Main "HOL-Library.Char_ord" "HOL-Library.List_Lexorder" "HOL-Library.Log_Nat"
begin

section \<open>Data model\<close>

text \<open>
  The analyzer (class \<open>FinanceAnalyzer\<close>) is a pure pass over a list of transactions.
  Conventions of the embedding:

  \<^item> A JavaScript \<open>number\<close> that is an amount, or a sum of amounts, is an exact rational
    (\<open>rat\<close>): the transaction source delivers finite values (integer milliunits divided
    by 1000), and the definitions of the analyzer compute with them exactly. The
    rounding of binary64 is studied separately, in the section on binary64: there the
    reductions, the trend, the subscription test and the small-purchase estimate are
    given again with every operation rounded as the source rounds it, under names that
    end in \<open>64\<close>.
  \<^item> A division whose divisor the source does not test is \<open>jsdiv\<close>, which yields
    \<open>NaN\<close> or an infinity on a zero divisor, as JavaScript does; its result is a
    \<open>jsnum\<close>. Where the source tests the divisor right before dividing
    (\<open>length >= 2\<close>, \<open>length >= 10\<close>, \<open>length >= 5\<close>, \<open>length === 0\<close>) the quotient is
    the rational one.
  \<^item> An optional string field is a \<open>string option\<close>; \<open>None\<close> is \<open>undefined\<close> or \<open>null\<close>.
  \<^item> \<open>new Date\<close> and date-fns \<open>format\<close> are library code outside the repository:
    they are taken as parameters (record \<open>dateLib\<close>), and \<open>format\<close> may throw.
  \<^item> A \<open>Map\<close> is an association list in insertion order; \<open>Array.prototype.sort\<close> is
    the stable sort.
\<close>

record transaction =
  tid :: string
  date :: string
  amount :: rat
  account_id :: string
  payee_name :: "string option"
  category_id :: "string option"
  category_name :: "string option"
  deleted :: bool

text \<open>
  The fields \<open>memo\<close>, \<open>cleared\<close>, \<open>approved\<close>, \<open>flag_color\<close>, \<open>account_name\<close>, \<open>payee_id\<close>
  and the transfer and import identifiers of \<open>YNABTransaction\<close> are never read by the
  analyzer and are left out; \<open>tid\<close> is the field \<open>id\<close>.
\<close>

datatype jsDate = Date int | InvalidDate

text \<open>
  A \<open>Date\<close> object is its time value in milliseconds, or \<open>InvalidDate\<close> (time value
  \<open>NaN\<close>). Relational operators on two dates compare the time values, and every
  comparison with \<open>NaN\<close> is false.
\<close>

definition dateGe :: "jsDate \<Rightarrow> jsDate \<Rightarrow> bool" where
  "dateGe a b = (case a of Date x \<Rightarrow> (case b of Date y \<Rightarrow> y \<le> x | InvalidDate \<Rightarrow> False)
                 | InvalidDate \<Rightarrow> False)"

definition dateLe :: "jsDate \<Rightarrow> jsDate \<Rightarrow> bool" where
  "dateLe a b = (case a of Date x \<Rightarrow> (case b of Date y \<Rightarrow> x \<le> y | InvalidDate \<Rightarrow> False)
                 | InvalidDate \<Rightarrow> False)"

record dateLib =
  newDate :: "string \<Rightarrow> jsDate"
  formatMonth :: "string \<Rightarrow> string option"

text \<open>
  \<open>newDate L s\<close> is \<open>new Date(s)\<close>. \<open>formatMonth L s\<close> is
  \<open>format(new Date(s), 'yyyy-MM')\<close>: \<open>Some\<close> of the month string, or \<open>None\<close> when
  \<open>format\<close> throws (date-fns raises a \<open>RangeError\<close> on an invalid date). Month strings
  are compared with \<open>localeCompare\<close> in the source; on strings of the shape \<open>yyyy-MM\<close>
  that is the lexicographic order of the characters, which is the order of \<open>string\<close>
  used here.
\<close>

record analysisConfig =
  startDate :: "jsDate option"
  endDate :: "jsDate option"
  includedAccounts :: "string list option"
  excludedCategories :: "string list option"
  minTransactionAmount :: "rat option"

datatype trendKind = increasing | decreasing | stable

datatype jsnum = Fin rat | PosInf | NegInf | NaN

record spendingPattern =
  category :: string
  totalAmount :: rat
  transactionCount :: nat
  averageAmount :: jsnum
  monthlyAverage :: jsnum
  trend :: trendKind
  percentageOfTotal :: jsnum

datatype opportunityType =
  recurring_subscription | high_frequency_small | category_overspend | unusual_spike

datatype confidenceLevel = high | medium | low

record savingsOpportunity =
  otype :: opportunityType
  ocategory :: string
  potentialSavings :: rat
  confidence :: confidenceLevel
  recommendations :: "string list"
  transactions :: "transaction list"

text \<open>
  \<open>otype\<close> and \<open>ocategory\<close> are the fields \<open>type\<close> and \<open>category\<close> of
  \<open>SavingsOpportunity\<close>. Its \<open>description\<close>, a text rendered with \<open>toFixed\<close>, is left out.
\<close>

datatype budgetStatus = under_budget | on_track | over_budget

record budgetAnalysisRow =
  bcategory :: string
  budgeted :: rat
  bspent :: rat
  remaining :: rat
  percentageUsed :: rat
  status :: budgetStatus
  daysRemaining :: rat
  projectedSpend :: rat

record monthlyTrend =
  month :: string
  spent :: rat
  income :: rat
  netFlow :: rat

record financialInsights =
  totalSpent :: rat
  totalIncome :: rat
  netCashFlow :: rat
  topSpendingCategories :: "spendingPattern list"
  savingsOpportunities :: "savingsOpportunity list"
  budgetAnalysis :: "budgetAnalysisRow list"
  unusualTransactions :: "transaction list"
  monthlyTrends :: "monthlyTrend list"

section \<open>JavaScript arithmetic and values\<close>

text \<open>
  Division of two finite numbers. The divisors of the analyzer are sums of absolute values
  and lengths, so a zero divisor is \<open>+0\<close>.
\<close>

definition jsdiv :: "rat \<Rightarrow> rat \<Rightarrow> jsnum" where
  "jsdiv a b =
     (if b = 0 then (if a = 0 then NaN else if 0 < a then PosInf else NegInf)
      else Fin (a / b))"

text \<open>Multiplication by a finite, strictly positive constant (\<open>* 100\<close>).\<close>

definition jsscale :: "jsnum \<Rightarrow> rat \<Rightarrow> jsnum" where
  "jsscale x c = (case x of Fin q \<Rightarrow> Fin (q * c) | PosInf \<Rightarrow> PosInf | NegInf \<Rightarrow> NegInf | NaN \<Rightarrow> NaN)"

text \<open>\<open>x > c\<close> and \<open>x < c\<close> against a finite constant; false on \<open>NaN\<close>.\<close>

definition jsgt :: "jsnum \<Rightarrow> rat \<Rightarrow> bool" where
  "jsgt x c = (case x of Fin q \<Rightarrow> c < q | PosInf \<Rightarrow> True | NegInf \<Rightarrow> False | NaN \<Rightarrow> False)"

definition jslt :: "jsnum \<Rightarrow> rat \<Rightarrow> bool" where
  "jslt x c = (case x of Fin q \<Rightarrow> q < c | PosInf \<Rightarrow> False | NegInf \<Rightarrow> True | NaN \<Rightarrow> False)"

text \<open>Addition, for summing the percentages of a report.\<close>

fun jsadd :: "jsnum \<Rightarrow> jsnum \<Rightarrow> jsnum" where
  "jsadd (Fin a) (Fin b) = Fin (a + b)"
| "jsadd NaN _ = NaN"
| "jsadd _ NaN = NaN"
| "jsadd PosInf NegInf = NaN"
| "jsadd NegInf PosInf = NaN"
| "jsadd PosInf _ = PosInf"
| "jsadd _ PosInf = PosInf"
| "jsadd NegInf _ = NegInf"
| "jsadd _ NegInf = NegInf"

definition jssum :: "jsnum list \<Rightarrow> jsnum" where
  "jssum xs = foldl jsadd (Fin 0) xs"

text \<open>Truthiness of an optional string: defined and not empty.\<close>

definition truthy :: "string option \<Rightarrow> bool" where
  "truthy s = (case s of None \<Rightarrow> False | Some v \<Rightarrow> v \<noteq> [])"

text \<open>\<open>s || d\<close> on an optional string.\<close>

definition orElse :: "string option \<Rightarrow> string \<Rightarrow> string" where
  "orElse s d = (case s of None \<Rightarrow> d | Some v \<Rightarrow> (if v = [] then d else v))"

text \<open>\<open>s?.startsWith(p)\<close>, read as a condition: \<open>undefined\<close> is falsy.\<close>

definition startsWith :: "string option \<Rightarrow> string \<Rightarrow> bool" where
  "startsWith s p = (case s of None \<Rightarrow> False | Some v \<Rightarrow> take (length p) v = p)"

section \<open>Maps in insertion order\<close>

text \<open>
  The grouping idiom of the source,
  \<^verbatim>\<open>if (!map.has(k)) map.set(k, []); map.get(k).push(v)\<close>,
  on a \<open>Map\<close> kept as an association list in insertion order.
\<close>

fun pushTo :: "'k \<Rightarrow> 'v \<Rightarrow> ('k \<times> 'v list) list \<Rightarrow> ('k \<times> 'v list) list" where
  "pushTo k v [] = [(k, [v])]"
| "pushTo k v ((k', vs) # m) = (if k = k' then (k', vs @ [v]) # m else (k', vs) # pushTo k v m)"

definition groupPairs :: "('k \<times> 'v) list \<Rightarrow> ('k \<times> 'v list) list" where
  "groupPairs kvs = foldl (\<lambda>m kv. pushTo (fst kv) (snd kv) m) [] kvs"

section \<open>The analyzer\<close>

subsection \<open>Filtering\<close>

text \<open>
  \<open>filterTransactions\<close>: deleted transactions go first; then each filter whose
  configuration field is truthy is applied. A \<open>Date\<close> object is always truthy, an array
  length and a number are truthy when they are not zero.
\<close>

definition filterTransactions ::
  "dateLib \<Rightarrow> transaction list \<Rightarrow> analysisConfig option \<Rightarrow> transaction list" where
  "filterTransactions L txs config =
     (let f0 = filter (\<lambda>t. \<not> deleted t) txs;
          f1 = (case Option.bind config startDate of
                  Some sd \<Rightarrow> filter (\<lambda>t. dateGe (newDate L (date t)) sd) f0
                | None \<Rightarrow> f0);
          f2 = (case Option.bind config endDate of
                  Some ed \<Rightarrow> filter (\<lambda>t. dateLe (newDate L (date t)) ed) f1
                | None \<Rightarrow> f1);
          f3 = (case Option.bind config includedAccounts of
                  Some accts \<Rightarrow>
                    (if length accts \<noteq> 0 then filter (\<lambda>t. account_id t \<in> set accts) f2 else f2)
                | None \<Rightarrow> f2);
          f4 = (case Option.bind config excludedCategories of
                  Some cats \<Rightarrow>
                    (if length cats \<noteq> 0
                     then filter (\<lambda>t. orElse (category_id t) [] \<notin> set cats) f3 else f3)
                | None \<Rightarrow> f3);
          f5 = (case Option.bind config minTransactionAmount of
                  Some m \<Rightarrow> (if m \<noteq> 0 then filter (\<lambda>t. m \<le> \<bar>amount t\<bar>) f4 else f4)
                | None \<Rightarrow> f4)
      in f5)"

subsection \<open>Totals\<close>

definition calculateTotalSpent :: "transaction list \<Rightarrow> rat" where
  "calculateTotalSpent txs =
     foldl (\<lambda>sum t. sum + \<bar>amount t\<bar>) 0 (filter (\<lambda>t. amount t < 0) txs)"

definition calculateTotalIncome :: "transaction list \<Rightarrow> rat" where
  "calculateTotalIncome txs =
     foldl (\<lambda>sum t. sum + amount t) 0 (filter (\<lambda>t. 0 < amount t) txs)"

definition calculateNetCashFlow :: "transaction list \<Rightarrow> rat" where
  "calculateNetCashFlow txs = foldl (\<lambda>sum t. sum + amount t) 0 txs"

subsection \<open>Category label\<close>

definition getCategoryName :: "transaction \<Rightarrow> string" where
  "getCategoryName t =
     (if startsWith (payee_name t) ''Transfer'' \<and> \<not> truthy (category_id t)
      then ''Credit Card Payment''
      else orElse (category_name t) ''Uncategorized'')"

subsection \<open>Months\<close>

text \<open>
  \<open>analyzeMonthlyTrends\<close> formats the month of every transaction while it fills the
  map, so it throws (\<open>None\<close>) as soon as one \<open>format\<close> call does.
\<close>

definition monthRow :: "string \<times> transaction list \<Rightarrow> monthlyTrend" where
  "monthRow e =
     \<lparr> month = fst e,
       spent = calculateTotalSpent (snd e),
       income = calculateTotalIncome (snd e),
       netFlow = calculateNetCashFlow (snd e) \<rparr>"

definition analyzeMonthlyTrends :: "dateLib \<Rightarrow> transaction list \<Rightarrow> monthlyTrend list option" where
  "analyzeMonthlyTrends L txs =
     (case those (map (\<lambda>t. formatMonth L (date t)) txs) of
        None \<Rightarrow> None
      | Some ms \<Rightarrow> Some (sort_key month (map monthRow (groupPairs (zip ms txs)))))"

text \<open>\<open>getUniqueMonths\<close>: a \<open>Set\<close> of month strings, as an array in insertion order.\<close>

definition setAdd :: "'a list \<Rightarrow> 'a \<Rightarrow> 'a list" where
  "setAdd s x = (if x \<in> set s then s else s @ [x])"

definition getUniqueMonths :: "dateLib \<Rightarrow> transaction list \<Rightarrow> string list option" where
  "getUniqueMonths L txs =
     (case those (map (\<lambda>t. formatMonth L (date t)) txs) of
        None \<Rightarrow> None
      | Some ms \<Rightarrow> Some (foldl setAdd [] ms))"

subsection \<open>Trend\<close>

text \<open>
  The quotient and the comparisons with \<open>0.1\<close> are exact here; \<open>calculateTrend64\<close> below
  rounds them.
\<close>

definition classifyChange :: "jsnum \<Rightarrow> trendKind" where
  "classifyChange change =
     (if jsgt change (1 / 10) then increasing
      else if jslt change (- (1 / 10)) then decreasing
      else stable)"

definition calculateTrend :: "dateLib \<Rightarrow> transaction list \<Rightarrow> trendKind option" where
  "calculateTrend L txs =
     (case analyzeMonthlyTrends L txs of
        None \<Rightarrow> None
      | Some monthlyTotals \<Rightarrow>
          Some (if length monthlyTotals < 2 then stable
                else (let first = spent (monthlyTotals ! 0);
                          last = spent (monthlyTotals ! (length monthlyTotals - 1));
                          change = jsdiv (last - first) first
                      in classifyChange change)))"

subsection \<open>Spending patterns\<close>

text \<open>The \<open>categoryMap\<close> that \<open>analyzeSpendingPatterns\<close> and \<open>findUnusualSpikes\<close> fill.\<close>

definition categoryMap :: "transaction list \<Rightarrow> (string \<times> transaction list) list" where
  "categoryMap txs =
     groupPairs (map (\<lambda>t. (getCategoryName t, t)) (filter (\<lambda>t. amount t < 0) txs))"

text \<open>The body of the loop over \<open>categoryMap\<close>, for one entry.\<close>

definition patternOf ::
  "dateLib \<Rightarrow> rat \<Rightarrow> string \<times> transaction list \<Rightarrow> spendingPattern option" where
  "patternOf L totalSpent' e =
     (let categoryTransactions = snd e;
          totalAmount' = foldl (\<lambda>sum t. sum + \<bar>amount t\<bar>) 0 categoryTransactions;
          transactionCount' = length categoryTransactions
      in case getUniqueMonths L categoryTransactions of
           None \<Rightarrow> None
         | Some months \<Rightarrow>
             (case calculateTrend L categoryTransactions of
                None \<Rightarrow> None
              | Some trend' \<Rightarrow>
                  Some \<lparr> category = fst e,
                         totalAmount = totalAmount',
                         transactionCount = transactionCount',
                         averageAmount = jsdiv totalAmount' (of_nat transactionCount'),
                         monthlyAverage = jsdiv totalAmount' (of_nat (length months)),
                         trend = trend',
                         percentageOfTotal = jsscale (jsdiv totalAmount' totalSpent') 100 \<rparr>))"

definition analyzeSpendingPatterns :: "dateLib \<Rightarrow> transaction list \<Rightarrow> spendingPattern list option" where
  "analyzeSpendingPatterns L txs =
     (case those (map (patternOf L (calculateTotalSpent txs)) (categoryMap txs)) of
        None \<Rightarrow> None
      | Some patterns \<Rightarrow> Some (sort_key (\<lambda>p. - totalAmount p) patterns))"

subsection \<open>Savings opportunities\<close>

text \<open>
  The non-null assertions of the source (\<open>t.payee_name!\<close>, \<open>find(...)!\<close>) are \<open>the\<close>;
  each stands where the value is present: behind the filter on the payee name, and on a
  search for the maximum of a non-empty bucket.
\<close>

definition payeeMap :: "transaction list \<Rightarrow> (string \<times> transaction list) list" where
  "payeeMap txs =
     groupPairs (map (\<lambda>t. (the (payee_name t), t))
                     (filter (\<lambda>t. amount t < 0 \<and> truthy (payee_name t)) txs))"

definition mean :: "rat list \<Rightarrow> rat" where
  "mean amounts = foldl (\<lambda>sum a. sum + a) 0 amounts / of_nat (length amounts)"

definition variance :: "rat list \<Rightarrow> rat" where
  "variance amounts =
     foldl (\<lambda>sum a. sum + (a - mean amounts) ^ 2) 0 amounts / of_nat (length amounts)"

text \<open>
  The body of the loop over \<open>payeeMap\<close>: the opportunities pushed for one entry. Mean,
  variance and the product with \<open>0.1\<close> are exact here; \<open>subscriptionOf64\<close> below rounds
  them. Likewise \<open>smallPurchasesOf\<close> takes 30% exactly and \<open>smallPurchasesOf64\<close> rounds.
\<close>

definition subscriptionOf :: "string \<times> transaction list \<Rightarrow> savingsOpportunity list" where
  "subscriptionOf e =
     (let payeeTransactions = snd e in
      if 2 \<le> length payeeTransactions then
        (let amounts = map (\<lambda>t. \<bar>amount t\<bar>) payeeTransactions;
             avgAmount = mean amounts
         in if variance amounts < avgAmount * (1 / 10) then
              (let monthlyAmount = avgAmount;
                   annualSavings = monthlyAmount * 12
               in [\<lparr> otype = recurring_subscription,
                      ocategory = orElse (category_name (payeeTransactions ! 0)) ''Uncategorized'',
                      potentialSavings = annualSavings,
                      confidence = high,
                      recommendations =
                        [''Review if this subscription is still needed'',
                         ''Check for cheaper alternatives'',
                         ''Consider annual billing for discounts''],
                      transactions = payeeTransactions \<rparr>])
            else [])
      else [])"

definition findRecurringSubscriptions :: "transaction list \<Rightarrow> savingsOpportunity list" where
  "findRecurringSubscriptions txs = concat (map subscriptionOf (payeeMap txs))"

definition smallCategoryMap :: "transaction list \<Rightarrow> (string \<times> transaction list) list" where
  "smallCategoryMap txs =
     groupPairs (map (\<lambda>t. (getCategoryName t, t))
                     (filter (\<lambda>t. amount t < 0 \<and> \<bar>amount t\<bar> < 20) txs))"

definition smallPurchasesOf :: "string \<times> transaction list \<Rightarrow> savingsOpportunity list" where
  "smallPurchasesOf e =
     (let categoryTransactions = snd e in
      if 10 \<le> length categoryTransactions then
        (let totalAmount' = foldl (\<lambda>sum t. sum + \<bar>amount t\<bar>) 0 categoryTransactions
         in [\<lparr> otype = high_frequency_small,
                ocategory = fst e,
                potentialSavings = totalAmount' * (3 / 10),
                confidence = medium,
                recommendations =
                  [''Set a monthly budget for this category'',
                   ''Consider bulk purchasing'',
                   ''Track these purchases more carefully''],
                transactions = categoryTransactions \<rparr>])
      else [])"

definition findHighFrequencySmallPurchases :: "transaction list \<Rightarrow> savingsOpportunity list" where
  "findHighFrequencySmallPurchases txs = concat (map smallPurchasesOf (smallCategoryMap txs))"

definition findCategoryOverspending :: "transaction list \<Rightarrow> savingsOpportunity list" where
  "findCategoryOverspending txs = []"

definition spikeOf :: "string \<times> transaction list \<Rightarrow> savingsOpportunity list" where
  "spikeOf e =
     (let categoryTransactions = snd e in
      if 5 \<le> length categoryTransactions then
        (let amounts = map (\<lambda>t. \<bar>amount t\<bar>) categoryTransactions;
             avgAmount = mean amounts;
             maxAmount = Max (set amounts)
         in if avgAmount * 3 < maxAmount then
              (let spikeTransaction = the (find (\<lambda>t. \<bar>amount t\<bar> = maxAmount) categoryTransactions)
               in [\<lparr> otype = unusual_spike,
                      ocategory = fst e,
                      potentialSavings = maxAmount - avgAmount,
                      confidence = low,
                      recommendations =
                        [''Review what caused this large expense'',
                         ''Consider if this was a one-time purchase'',
                         ''Plan for similar expenses in the future''],
                      transactions = [spikeTransaction] \<rparr>])
            else [])
      else [])"

definition findUnusualSpikes :: "transaction list \<Rightarrow> savingsOpportunity list" where
  "findUnusualSpikes txs = concat (map spikeOf (categoryMap txs))"

definition findSavingsOpportunities :: "transaction list \<Rightarrow> savingsOpportunity list" where
  "findSavingsOpportunities txs =
     sort_key (\<lambda>opp. - potentialSavings opp)
       (findRecurringSubscriptions txs @ findHighFrequencySmallPurchases txs
        @ findCategoryOverspending txs @ findUnusualSpikes txs)"

subsection \<open>Budget, outliers and the report\<close>

definition analyzeBudgetPerformance :: "transaction list \<Rightarrow> budgetAnalysisRow list" where
  "analyzeBudgetPerformance txs = []"

definition findUnusualTransactions :: "transaction list \<Rightarrow> transaction list" where
  "findUnusualTransactions txs =
     (let amounts = map (\<lambda>t. \<bar>amount t\<bar>) (filter (\<lambda>t. amount t < 0) txs) in
      if length amounts = 0 then []
      else (let avgAmount = mean amounts;
                threshold = avgAmount * 5
            in filter (\<lambda>t. threshold < \<bar>amount t\<bar>) txs))"

text \<open>
  \<open>analyzeTransactions\<close> returns \<open>None\<close> when a \<open>format\<close> call throws, which happens in
  \<open>analyzeSpendingPatterns\<close> or in \<open>analyzeMonthlyTrends\<close>; nothing else in it can raise.
\<close>

definition analyzeTransactions ::
  "dateLib \<Rightarrow> transaction list \<Rightarrow> analysisConfig option \<Rightarrow> financialInsights option" where
  "analyzeTransactions L txs config =
     (let filteredTransactions = filterTransactions L txs config in
      case analyzeSpendingPatterns L filteredTransactions of
        None \<Rightarrow> None
      | Some patterns \<Rightarrow>
          (case analyzeMonthlyTrends L filteredTransactions of
             None \<Rightarrow> None
           | Some trends \<Rightarrow>
               Some \<lparr> totalSpent = calculateTotalSpent filteredTransactions,
                      totalIncome = calculateTotalIncome filteredTransactions,
                      netCashFlow = calculateNetCashFlow filteredTransactions,
                      topSpendingCategories = patterns,
                      savingsOpportunities = findSavingsOpportunities filteredTransactions,
                      budgetAnalysis = analyzeBudgetPerformance filteredTransactions,
                      unusualTransactions = findUnusualTransactions filteredTransactions,
                      monthlyTrends = trends \<rparr>))"

section \<open>The arithmetic of the source: binary64\<close>

text \<open>
  The numbers of the source are IEEE 754 binary64 values, and every \<open>+\<close> of a \<open>reduce\<close>
  rounds. A binary64 value is kept as the rational it denotes; \<open>fl64\<close> rounds a rational
  to the nearest binary64 value, ties to even (53-bit significand, subnormal spacing
  \<open>2^-1074\<close>). Magnitudes are taken below \<open>2^1024\<close>: overflow to an infinity is not
  modelled.
\<close>

definition pow2 :: "int \<Rightarrow> rat" where
  "pow2 k = (if 0 \<le> k then 2 ^ nat k else 1 / 2 ^ nat (- k))"

definition roundTiesEven :: "rat \<Rightarrow> int" where
  "roundTiesEven q =
     (let f = \<lfloor>q\<rfloor>; r = q - of_int f
      in if r < 1 / 2 then f else if 1 / 2 < r then f + 1 else if even f then f else f + 1)"

text \<open>\<open>ilog2 q\<close> is the exponent \<open>e\<close> with \<open>2^e \<le> q < 2^(e+1)\<close>, for \<open>q > 0\<close>.\<close>

definition ilog2 :: "rat \<Rightarrow> int" where
  "ilog2 q =
     (let n = fst (quotient_of q); d = snd (quotient_of q); k = bitlen n - bitlen d
      in if pow2 k \<le> q then k else k - 1)"

definition fl64 :: "rat \<Rightarrow> rat" where
  "fl64 q =
     (if q = 0 then 0
      else (let u = pow2 (max (ilog2 \<bar>q\<bar>) (- 1022) - 52)
            in of_int (roundTiesEven (q / u)) * u))"

definition add64 :: "rat \<Rightarrow> rat \<Rightarrow> rat" where
  "add64 a b = fl64 (a + b)"

definition sub64 :: "rat \<Rightarrow> rat \<Rightarrow> rat" where
  "sub64 a b = fl64 (a - b)"

text \<open>
  The amount that the transaction source stores for an integer number of milliunits:
  \<open>t.amount / 1000\<close>, one rounded division.
\<close>

definition fromMilliunits :: "int \<Rightarrow> rat" where
  "fromMilliunits k = fl64 (of_int k / 1000)"

text \<open>The three reductions of the source with the additions rounded.\<close>

definition calculateTotalSpent64 :: "transaction list \<Rightarrow> rat" where
  "calculateTotalSpent64 txs =
     foldl (\<lambda>sum t. add64 sum \<bar>amount t\<bar>) 0 (filter (\<lambda>t. amount t < 0) txs)"

definition calculateTotalIncome64 :: "transaction list \<Rightarrow> rat" where
  "calculateTotalIncome64 txs =
     foldl (\<lambda>sum t. add64 sum (amount t)) 0 (filter (\<lambda>t. 0 < amount t) txs)"

definition calculateNetCashFlow64 :: "transaction list \<Rightarrow> rat" where
  "calculateNetCashFlow64 txs = foldl (\<lambda>sum t. add64 sum (amount t)) 0 txs"















section \<open>The trend rule as the specification words it\<close>





section \<open>Statistics and buckets as the specification words them\<close>




text \<open>
  The negative-amount transactions of absolute value below 20 whose resolved category
  label is the given one.
\<close>

definition smallPurchasesIn :: "string \<Rightarrow> transaction list \<Rightarrow> transaction list" where
  "smallPurchasesIn label txs =
     filter (\<lambda>t. getCategoryName t = label) (filter (\<lambda>t. amount t < 0 \<and> \<bar>amount t\<bar> < 20) txs)"


section \<open>A library instance and sample data\<close>

text \<open>
  An instance of \<open>dateLib\<close> for concrete runs: it reads a well-formed ISO calendar day
  \<open>YYYY-MM-DD\<close> in UTC and treats every other string as an invalid date.
\<close>

definition digitVal :: "char \<Rightarrow> nat option" where
  "digitVal c =
     (let n = of_char c :: nat in if 48 \<le> n \<and> n \<le> 57 then Some (n - 48) else None)"

fun digitsVal :: "nat \<Rightarrow> string \<Rightarrow> nat option" where
  "digitsVal acc [] = Some acc"
| "digitsVal acc (c # cs) =
     (case digitVal c of None \<Rightarrow> None | Some d \<Rightarrow> digitsVal (10 * acc + d) cs)"

definition parseIsoDay :: "string \<Rightarrow> (int \<times> int \<times> int) option" where
  "parseIsoDay s =
     (if length s = 10 \<and> s ! 4 = CHR ''-'' \<and> s ! 7 = CHR ''-'' then
        (case (digitsVal 0 (take 4 s), digitsVal 0 (take 2 (drop 5 s)), digitsVal 0 (drop 8 s)) of
           (Some y, Some m, Some d) \<Rightarrow>
             (if 1 \<le> m \<and> m \<le> 12 \<and> 1 \<le> d \<and> d \<le> 31 then Some (int y, int m, int d) else None)
         | _ \<Rightarrow> None)
      else None)"

text \<open>Days since 1970-01-01 of a day of the proleptic Gregorian calendar.\<close>

definition daysFromCivil :: "int \<Rightarrow> int \<Rightarrow> int \<Rightarrow> int" where
  "daysFromCivil y m d =
     (let y' = (if m \<le> 2 then y - 1 else y);
          era = y' div 400;
          yoe = y' - era * 400;
          doy = (153 * (if 2 < m then m - 3 else m + 9) + 2) div 5 + d - 1;
          doe = yoe * 365 + yoe div 4 - yoe div 100 + doy
      in era * 146097 + doe - 719468)"

definition isoLib :: dateLib where
  "isoLib =
     \<lparr> newDate = (\<lambda>s. case parseIsoDay s of
                        None \<Rightarrow> InvalidDate
                      | Some (y, m, d) \<Rightarrow> Date (daysFromCivil y m d * 86400000)),
       formatMonth = (\<lambda>s. case parseIsoDay s of None \<Rightarrow> None | Some _ \<Rightarrow> Some (take 7 s)) \<rparr>"

definition mkTx ::
  "string \<Rightarrow> string \<Rightarrow> rat \<Rightarrow> string option \<Rightarrow> string option \<Rightarrow> string option \<Rightarrow> transaction" where
  "mkTx i d a p cid cname =
     \<lparr> tid = i, date = d, amount = a, account_id = ''acct-1'', payee_name = p,
       category_id = cid, category_name = cname, deleted = False \<rparr>"

text \<open>
  Ten, thirty and twenty cents, as the transaction source stores them: the binary64
  values nearest to 0.1, -0.3 and 0.2.
\<close>

definition roundingSample :: "transaction list" where
  "roundingSample =
     [mkTx ''t1'' ''2024-01-05'' (fromMilliunits 100) None None None,
      mkTx ''t2'' ''2024-01-06'' (fromMilliunits (- 300)) None None None,
      mkTx ''t3'' ''2024-01-07'' (fromMilliunits 200) None None None]"

text \<open>A list whose only transaction is deleted (and carries a date that does not parse).\<close>

definition deletedOnly :: "transaction list" where
  "deletedOnly =
     [(mkTx ''d1'' ''not a date'' (- 25) (Some ''Cafe'') None None) \<lparr> deleted := True \<rparr>]"

text \<open>A small ledger: two spending categories over two months, and one income.\<close>

definition ledger :: "transaction list" where
  "ledger =
     [mkTx ''g1'' ''2024-01-05'' (- 50) (Some ''Market'') (Some ''c-groc'') (Some ''Groceries''),
      mkTx ''r1'' ''2024-01-07'' (- 20) (Some ''Cinema'') (Some ''c-fun'') (Some ''Fun''),
      mkTx ''g2'' ''2024-01-20'' (- 30) (Some ''Market'') (Some ''c-groc'') (Some ''Groceries''),
      mkTx ''i1'' ''2024-01-31'' 1000 (Some ''Employer'') None None,
      mkTx ''g3'' ''2024-02-03'' (- 100) (Some ''Market'') (Some ''c-groc'') (Some ''Groceries'')]"

text \<open>A list with income only.\<close>

definition incomeOnly :: "transaction list" where
  "incomeOnly = [mkTx ''i1'' ''2024-01-31'' 1000 (Some ''Employer'') None None]"


text \<open>Five monthly charges of 9.99 by one payee.\<close>

definition subscriptions :: "transaction list" where
  "subscriptions =
     [mkTx ''s1'' ''2024-01-15'' (- (999 / 100)) (Some ''Netflix'') (Some ''c-ent'') (Some ''Entertainment''),
      mkTx ''s2'' ''2024-02-15'' (- (999 / 100)) (Some ''Netflix'') (Some ''c-ent'') (Some ''Entertainment''),
      mkTx ''s3'' ''2024-03-15'' (- (999 / 100)) (Some ''Netflix'') (Some ''c-ent'') (Some ''Entertainment''),
      mkTx ''s4'' ''2024-04-15'' (- (999 / 100)) (Some ''Netflix'') (Some ''c-ent'') (Some ''Entertainment''),
      mkTx ''s5'' ''2024-05-15'' (- (999 / 100)) (Some ''Netflix'') (Some ''c-ent'') (Some ''Entertainment'')]"


text \<open>
  Two payments to a credit card: the payee name begins with \<open>Transfer\<close> and the category
  is absent.
\<close>

definition transfers :: "transaction list" where
  "transfers =
     [mkTx ''x1'' ''2024-01-28'' (- 100) (Some ''Transfer : Visa'') None None,
      mkTx ''x2'' ''2024-02-28'' (- 100) (Some ''Transfer : Visa'') None None]"

text \<open>
  The ledger followed by the five charges, and the same list with a deleted transaction in
  front.
\<close>

definition mixed :: "transaction list" where
  "mixed = ledger @ subscriptions"

definition mixedWithDeleted :: "transaction list" where
  "mixedWithDeleted =
     (mkTx ''d0'' ''2024-01-09'' (- 5000) (Some ''Market'') (Some ''c-groc'') (Some ''Groceries''))
       \<lparr> deleted := True \<rparr> # mixed"



section \<open>Auxiliary facts\<close>

subsection \<open>Reductions and grouping\<close>

lemma foldl_add_sum_list:
  "foldl (\<lambda>s x. s + f x) a xs = a + sum_list (map f xs)" for a :: rat
  by (induction xs arbitrary: a) (simp_all add: add.assoc)

lemma calculateTotalSpent_sum:
  "calculateTotalSpent txs = sum_list (map (\<lambda>t. \<bar>amount t\<bar>) (filter (\<lambda>t. amount t < 0) txs))"
  by (simp add: calculateTotalSpent_def foldl_add_sum_list)

lemma calculateTotalIncome_sum:
  "calculateTotalIncome txs = sum_list (map amount (filter (\<lambda>t. 0 < amount t) txs))"
  by (simp add: calculateTotalIncome_def foldl_add_sum_list)

lemma calculateNetCashFlow_sum:
  "calculateNetCashFlow txs = sum_list (map amount txs)"
  by (simp add: calculateNetCashFlow_def foldl_add_sum_list)

lemma net_is_income_minus_spent:
  "calculateNetCashFlow txs = calculateTotalIncome txs - calculateTotalSpent txs"
  unfolding calculateNetCashFlow_sum calculateTotalIncome_sum calculateTotalSpent_sum
  by (induction txs) auto

lemma pushTo_keys:
  "map fst (pushTo k v m) = (if k \<in> set (map fst m) then map fst m else map fst m @ [k])"
  by (induction m) force+

lemma pushTo_distinct:
  "distinct (map fst m) \<Longrightarrow> distinct (map fst (pushTo k v m))"
  by (simp add: pushTo_keys)

lemma pushTo_map_of:
  "map_of (pushTo k v m) k' =
     (if k' = k then Some ((case map_of m k of None \<Rightarrow> [] | Some vs \<Rightarrow> vs) @ [v])
      else map_of m k')"
  by (induction m) auto

lemma groupPairs_snoc:
  "groupPairs (kvs @ [kv]) = pushTo (fst kv) (snd kv) (groupPairs kvs)"
  by (simp add: groupPairs_def)

lemma groupPairs_distinct: "distinct (map fst (groupPairs kvs))"
  by (induction kvs rule: rev_induct) (simp_all add: groupPairs_snoc pushTo_distinct groupPairs_def)



lemma groupPairs_map_of:
  "map_of (groupPairs kvs) k =
     (if k \<in> fst ` set kvs then Some (map snd (filter (\<lambda>kv. fst kv = k) kvs)) else None)"
proof (induction kvs rule: rev_induct)
  case Nil
  then show ?case by (simp add: groupPairs_def)
next
  case (snoc kv kvs)
  have none: "filter (\<lambda>kv. fst kv = k) kvs = []" if "k \<notin> fst ` set kvs"
    using that by (auto simp: filter_empty_conv)
  show ?case
  proof (cases "k = fst kv")
    case True
    then show ?thesis
      using snoc none by (simp add: groupPairs_snoc pushTo_map_of)
  next
    case False
    then show ?thesis
      using snoc by (simp add: groupPairs_snoc pushTo_map_of)
  qed
qed

lemma groupPairs_mem:
  "(k, vs) \<in> set (groupPairs kvs) \<longleftrightarrow>
     k \<in> fst ` set kvs \<and> vs = map snd (filter (\<lambda>kv. fst kv = k) kvs)"
proof -
  have "(k, vs) \<in> set (groupPairs kvs) \<longleftrightarrow> map_of (groupPairs kvs) k = Some vs"
    using groupPairs_distinct [of kvs] by simp
  then show ?thesis
    by (simp add: groupPairs_map_of eq_commute)
qed

lemma pushTo_sum:
  "sum_list (map (\<lambda>e. sum_list (map f (snd e))) (pushTo k v m)) =
     sum_list (map (\<lambda>e. sum_list (map f (snd e))) m) + f v" for f :: "'v \<Rightarrow> rat"
  by (induction m) auto

lemma groupPairs_sum:
  "sum_list (map (\<lambda>e. sum_list (map f (snd e))) (groupPairs kvs)) = sum_list (map (\<lambda>kv. f (snd kv)) kvs)"
  for f :: "'v \<Rightarrow> rat"
  by (induction kvs rule: rev_induct) (simp_all add: groupPairs_snoc pushTo_sum groupPairs_def)

lemma groupPairs_Nil: "groupPairs [] = []"
  by (simp add: groupPairs_def)

lemma those_map_Some:
  "those (map f xs) = Some ys \<longleftrightarrow> (\<forall>x\<in>set xs. f x \<noteq> None) \<and> ys = map (\<lambda>x. the (f x)) xs"
  by (induction xs arbitrary: ys) (auto split: option.splits)


lemma groupPairs_bucket_nonempty:
  assumes "(k, vs) \<in> set (groupPairs kvs)"
  shows "vs \<noteq> []" and "set vs \<subseteq> snd ` set kvs"
proof -
  from assms have k: "k \<in> fst ` set kvs" and vs: "vs = map snd (filter (\<lambda>kv. fst kv = k) kvs)"
    by (simp_all add: groupPairs_mem)
  from k obtain kv where "kv \<in> set kvs" "fst kv = k" by auto
  then have "filter (\<lambda>kv. fst kv = k) kvs \<noteq> []"
    by (auto simp: filter_empty_conv)
  then show "vs \<noteq> []" by (simp add: vs)
  show "set vs \<subseteq> snd ` set kvs" by (auto simp: vs)
qed

lemma groupPairs_key_mem:
  "(k, vs) \<in> set (groupPairs (map (\<lambda>t. (key t, t)) xs)) \<longleftrightarrow>
     k \<in> key ` set xs \<and> vs = filter (\<lambda>t. key t = k) xs"
proof -
  have "map snd (filter (\<lambda>kv. fst kv = k) (map (\<lambda>t. (key t, t)) xs)) = filter (\<lambda>t. key t = k) xs"
    by (induction xs) auto
  moreover have "fst ` set (map (\<lambda>t. (key t, t)) xs) = key ` set xs"
    by force
  ultimately show ?thesis
    by (simp only: groupPairs_mem)
qed

lemma sum_list_insort_key:
  "sum_list (map f (insort_key k x xs)) = f x + sum_list (map f xs)" for f :: "'a \<Rightarrow> rat"
  by (induction xs) auto

lemma sum_list_sort_key:
  "sum_list (map f (sort_key k xs)) = sum_list (map f xs)" for f :: "'a \<Rightarrow> rat"
  by (induction xs) (auto simp: sum_list_insort_key)

subsection \<open>The filter and the report\<close>

lemma filterTransactions_subset:
  "set (filterTransactions L txs config) \<subseteq> {t \<in> set txs. \<not> deleted t}"
  by (auto simp: filterTransactions_def Let_def split: option.splits if_splits)

lemma filterTransactions_deleted:
  "filterTransactions L txs config = filterTransactions L (filter (\<lambda>t. \<not> deleted t) txs) config"
  by (simp add: filterTransactions_def)

lemma filterTransactions_Nil: "filterTransactions L [] config = []"
  by (simp add: filterTransactions_def split: option.splits)

lemma analyzeTransactions_Some:
  assumes "analyzeTransactions L txs config = Some r"
  shows "totalSpent r = calculateTotalSpent (filterTransactions L txs config)"
    and "totalIncome r = calculateTotalIncome (filterTransactions L txs config)"
    and "netCashFlow r = calculateNetCashFlow (filterTransactions L txs config)"
    and "analyzeSpendingPatterns L (filterTransactions L txs config) = Some (topSpendingCategories r)"
    and "savingsOpportunities r = findSavingsOpportunities (filterTransactions L txs config)"
    and "budgetAnalysis r = []"
    and "unusualTransactions r = findUnusualTransactions (filterTransactions L txs config)"
    and "analyzeMonthlyTrends L (filterTransactions L txs config) = Some (monthlyTrends r)"
  using assms
  by (auto simp: analyzeTransactions_def Let_def analyzeBudgetPerformance_def split: option.splits)

lemma analyzeSpendingPatterns_Nil: "analyzeSpendingPatterns L [] = Some []"
  by (simp add: analyzeSpendingPatterns_def categoryMap_def groupPairs_Nil)

lemma analyzeMonthlyTrends_Nil: "analyzeMonthlyTrends L [] = Some []"
  by (simp add: analyzeMonthlyTrends_def groupPairs_Nil)

lemma findSavingsOpportunities_Nil: "findSavingsOpportunities [] = []"
  by (simp add: findSavingsOpportunities_def findRecurringSubscriptions_def payeeMap_def
      findHighFrequencySmallPurchases_def smallCategoryMap_def findCategoryOverspending_def
      findUnusualSpikes_def categoryMap_def groupPairs_Nil)

lemma findUnusualTransactions_Nil: "findUnusualTransactions [] = []"
  by (simp add: findUnusualTransactions_def)

subsection \<open>Spending patterns\<close>

lemma sum_abs_nonneg: "0 \<le> sum_list (map (\<lambda>t. \<bar>amount t\<bar>) xs)"
  by (induction xs) auto

lemma totalSpent_pos:
  assumes "xs \<noteq> []" and "\<forall>t\<in>set xs. amount t < 0"
  shows "0 < calculateTotalSpent xs"
proof -
  have f: "filter (\<lambda>t. amount t < 0) xs = xs"
    using assms(2) by (simp add: filter_id_conv)
  obtain x ys where xs: "xs = x # ys"
    using assms(1) by (cases xs) auto
  have "0 < \<bar>amount x\<bar>"
    using assms(2) xs by auto
  then have "0 < sum_list (map (\<lambda>t. \<bar>amount t\<bar>) xs)"
    using sum_abs_nonneg [of ys] by (simp add: xs add_pos_nonneg)
  then show ?thesis
    by (simp add: calculateTotalSpent_sum f)
qed

lemma totalSpent_nonneg: "0 \<le> calculateTotalSpent xs"
  by (simp add: calculateTotalSpent_sum sum_abs_nonneg)

lemma totalSpent_zero_iff:
  "calculateTotalSpent xs = 0 \<longleftrightarrow> filter (\<lambda>t. amount t < 0) xs = []"
proof
  assume z: "calculateTotalSpent xs = 0"
  show "filter (\<lambda>t. amount t < 0) xs = []"
  proof (rule ccontr)
    assume "filter (\<lambda>t. amount t < 0) xs \<noteq> []"
    then have "0 < calculateTotalSpent (filter (\<lambda>t. amount t < 0) xs)"
      by (intro totalSpent_pos) auto
    then show False using z by (simp add: calculateTotalSpent_def)
  qed
next
  assume "filter (\<lambda>t. amount t < 0) xs = []"
  then show "calculateTotalSpent xs = 0" by (simp add: calculateTotalSpent_def)
qed

lemma categoryMap_mem:
  "(c, b) \<in> set (categoryMap txs) \<longleftrightarrow>
     c \<in> getCategoryName ` set (filter (\<lambda>t. amount t < 0) txs) \<and>
     b = filter (\<lambda>t. getCategoryName t = c) (filter (\<lambda>t. amount t < 0) txs)"
  unfolding categoryMap_def by (rule groupPairs_key_mem)

lemma categoryMap_bucket:
  assumes "(c, b) \<in> set (categoryMap txs)"
  shows "b \<noteq> []" and "\<forall>t\<in>set b. amount t < 0" and "set b \<subseteq> set txs"
proof -
  have m: "(c, b) \<in> set (groupPairs (map (\<lambda>t. (getCategoryName t, t)) (filter (\<lambda>t. amount t < 0) txs)))"
    using assms by (simp add: categoryMap_def)
  show "b \<noteq> []" using groupPairs_bucket_nonempty(1) [OF m] .
  have s: "set b \<subseteq> set (filter (\<lambda>t. amount t < 0) txs)"
    using groupPairs_bucket_nonempty(2) [OF m] by auto
  then show "\<forall>t\<in>set b. amount t < 0" by auto
  show "set b \<subseteq> set txs" using s by auto
qed

lemma patternOf_Some:
  assumes "patternOf L T e = Some p"
  shows "category p = fst e"
    and "totalAmount p = sum_list (map (\<lambda>t. \<bar>amount t\<bar>) (snd e))"
    and "transactionCount p = length (snd e)"
    and "percentageOfTotal p = jsscale (jsdiv (totalAmount p) T) 100"
    and "averageAmount p = jsdiv (totalAmount p) (of_nat (length (snd e)))"
    and "calculateTrend L (snd e) = Some (trend p)"
  using assms
  by (auto simp: patternOf_def Let_def foldl_add_sum_list split: option.splits)

lemma analyzeSpendingPatterns_Some:
  assumes "analyzeSpendingPatterns L txs = Some ps"
  shows "\<forall>e\<in>set (categoryMap txs). patternOf L (calculateTotalSpent txs) e \<noteq> None"
    and "ps = sort_key (\<lambda>p. - totalAmount p)
                (map (\<lambda>e. the (patternOf L (calculateTotalSpent txs) e)) (categoryMap txs))"
  using assms
  by (auto simp: analyzeSpendingPatterns_def those_map_Some split: option.splits)

lemma analyzeSpendingPatterns_mem:
  assumes "analyzeSpendingPatterns L txs = Some ps" and "p \<in> set ps"
  shows "\<exists>e\<in>set (categoryMap txs). patternOf L (calculateTotalSpent txs) e = Some p"
  using analyzeSpendingPatterns_Some [OF assms(1)] assms(2) by force

lemma analyzeSpendingPatterns_total:
  assumes "analyzeSpendingPatterns L txs = Some ps"
  shows "sum_list (map totalAmount ps) = calculateTotalSpent txs"
proof -
  let ?T = "calculateTotalSpent txs"
  let ?G = "categoryMap txs"
  have "sum_list (map totalAmount ps)
        = sum_list (map totalAmount (map (\<lambda>e. the (patternOf L ?T e)) ?G))"
    by (simp only: analyzeSpendingPatterns_Some(2) [OF assms] sum_list_sort_key)
  also have "\<dots> = sum_list (map (\<lambda>e. sum_list (map (\<lambda>t. \<bar>amount t\<bar>) (snd e))) ?G)"
  proof -
    have "totalAmount (the (patternOf L ?T e)) = sum_list (map (\<lambda>t. \<bar>amount t\<bar>) (snd e))"
      if "e \<in> set ?G" for e
    proof -
      from that analyzeSpendingPatterns_Some(1) [OF assms]
      obtain p where "patternOf L ?T e = Some p" by auto
      then show ?thesis using patternOf_Some(2) by simp
    qed
    then show ?thesis
      by (simp add: comp_def cong: map_cong)
  qed
  also have "\<dots> = ?T"
    by (simp add: categoryMap_def groupPairs_sum calculateTotalSpent_sum comp_def)
  finally show ?thesis .
qed

lemma jssum_Fin: "foldl jsadd (Fin a) (map (\<lambda>x. Fin (g x)) xs) = Fin (a + sum_list (map g xs))"
  by (induction xs arbitrary: a) (simp_all add: add.assoc)

lemma percentage_of_pattern:
  assumes "analyzeSpendingPatterns L txs = Some ps" and "p \<in> set ps"
  shows "calculateTotalSpent txs \<noteq> 0"
    and "percentageOfTotal p = Fin (totalAmount p / calculateTotalSpent txs * 100)"
proof -
  obtain e where e: "e \<in> set (categoryMap txs)"
    and p: "patternOf L (calculateTotalSpent txs) e = Some p"
    using analyzeSpendingPatterns_mem [OF assms] by blast
  have "(fst e, snd e) \<in> set (categoryMap txs)" using e by simp
  from categoryMap_bucket [OF this]
  have "filter (\<lambda>t. amount t < 0) txs \<noteq> []"
    by (cases "snd e") (auto simp: filter_empty_conv)
  then show nz: "calculateTotalSpent txs \<noteq> 0"
    by (simp add: totalSpent_zero_iff)
  show "percentageOfTotal p = Fin (totalAmount p / calculateTotalSpent txs * 100)"
    using patternOf_Some(4) [OF p] nz by (simp add: jsdiv_def jsscale_def)
qed

lemma percentages_sum:
  assumes "analyzeSpendingPatterns L txs = Some ps" and "calculateTotalSpent txs \<noteq> 0"
  shows "jssum (map percentageOfTotal ps) = Fin 100"
proof -
  let ?T = "calculateTotalSpent txs"
  have m: "map percentageOfTotal ps = map (\<lambda>p. Fin (totalAmount p * (100 / ?T))) ps"
    using percentage_of_pattern(2) [OF assms(1)] by simp
  have "jssum (map percentageOfTotal ps)
        = foldl jsadd (Fin 0) (map (\<lambda>p. Fin (totalAmount p * (100 / ?T))) ps)"
    by (simp only: jssum_def m)
  also have "\<dots> = Fin (0 + sum_list (map (\<lambda>p. totalAmount p * (100 / ?T)) ps))"
    by (rule jssum_Fin)
  also have "sum_list (map (\<lambda>p. totalAmount p * (100 / ?T)) ps) = sum_list (map totalAmount ps) * (100 / ?T)"
    by (rule sum_list_mult_const)
  also have "\<dots> = 100"
    using assms(2) by (simp add: analyzeSpendingPatterns_total [OF assms(1)])
  finally show ?thesis by simp
qed

subsection \<open>The monthly table\<close>










subsection \<open>Savings opportunities\<close>




lemma payeeMap_bucket:
  assumes "(p, b) \<in> set (payeeMap txs)"
  shows "b \<noteq> []" and "set b \<subseteq> set txs"
proof -
  have m: "(p, b) \<in> set (groupPairs (map (\<lambda>t. (the (payee_name t), t))
                 (filter (\<lambda>t. amount t < 0 \<and> truthy (payee_name t)) txs)))"
    using assms by (simp add: payeeMap_def)
  show "b \<noteq> []" using groupPairs_bucket_nonempty(1) [OF m] .
  show "set b \<subseteq> set txs" using groupPairs_bucket_nonempty(2) [OF m] by auto
qed

lemma smallCategoryMap_mem:
  "(c, b) \<in> set (smallCategoryMap txs) \<longleftrightarrow> b \<noteq> [] \<and> b = smallPurchasesIn c txs"
proof -
  let ?F = "filter (\<lambda>t. amount t < 0 \<and> \<bar>amount t\<bar> < 20) txs"
  have "c \<in> getCategoryName ` set ?F \<longleftrightarrow> filter (\<lambda>t. getCategoryName t = c) ?F \<noteq> []"
    by (auto simp: filter_empty_conv)
  then show ?thesis
    unfolding smallCategoryMap_def smallPurchasesIn_def
    by (simp only: groupPairs_key_mem) auto
qed

lemma smallCategoryMap_bucket:
  assumes "(c, b) \<in> set (smallCategoryMap txs)"
  shows "set b \<subseteq> set txs"
  using assms by (auto simp: smallCategoryMap_mem smallPurchasesIn_def)

lemma set_findSavingsOpportunities:
  "set (findSavingsOpportunities txs) =
     set (findRecurringSubscriptions txs) \<union> set (findHighFrequencySmallPurchases txs)
     \<union> set (findUnusualSpikes txs)"
  by (auto simp: findSavingsOpportunities_def findCategoryOverspending_def)





lemma getCategoryName_transfer:
  assumes "startsWith (payee_name t) ''Transfer''" and "\<not> truthy (category_id t)"
  shows "getCategoryName t = ''Credit Card Payment''"
  using assms by (simp add: getCategoryName_def)

lemma findUnusualTransactions_subset: "set (findUnusualTransactions txs) \<subseteq> set txs"
  by (auto simp: findUnusualTransactions_def Let_def)

lemma spike_found:
  assumes "b \<noteq> []"
  shows "the (find (\<lambda>t. \<bar>amount t\<bar> = Max (set (map (\<lambda>t. \<bar>amount t\<bar>) b))) b) \<in> set b"
proof -
  let ?A = "set (map (\<lambda>t. \<bar>amount t\<bar>) b)"
  have "Max ?A \<in> ?A"
    using assms by (intro Max_in) auto
  then obtain t where "t \<in> set b" "\<bar>amount t\<bar> = Max ?A"
    by auto
  then have "find (\<lambda>t. \<bar>amount t\<bar> = Max ?A) b \<noteq> None"
    by (auto simp: find_None_iff)
  then obtain u where u: "find (\<lambda>t. \<bar>amount t\<bar> = Max ?A) b = Some u"
    by blast
  then have "u \<in> set b"
    by (auto simp: find_Some_iff)
  then show ?thesis
    by (simp only: u option.sel)
qed

lemma recurring_transactions_subset:
  assumes "opp \<in> set (findRecurringSubscriptions txs)"
  shows "set (transactions opp) \<subseteq> set txs"
proof -
  obtain p b where e: "(p, b) \<in> set (payeeMap txs)" and o: "opp \<in> set (subscriptionOf (p, b))"
    using assms by (auto simp: findRecurringSubscriptions_def)
  from o have "transactions opp = b"
    by (auto simp: subscriptionOf_def Let_def split: if_splits)
  then show ?thesis
    using payeeMap_bucket(2) [OF e] by simp
qed

lemma small_transactions_subset:
  assumes "opp \<in> set (findHighFrequencySmallPurchases txs)"
  shows "set (transactions opp) \<subseteq> set txs"
proof -
  obtain c b where e: "(c, b) \<in> set (smallCategoryMap txs)" and o: "opp \<in> set (smallPurchasesOf (c, b))"
    using assms by (auto simp: findHighFrequencySmallPurchases_def)
  from o have "transactions opp = b"
    by (auto simp: smallPurchasesOf_def Let_def split: if_splits)
  then show ?thesis
    using smallCategoryMap_bucket [OF e] by simp
qed

lemma spike_transactions_subset:
  assumes "opp \<in> set (findUnusualSpikes txs)"
  shows "set (transactions opp) \<subseteq> set txs"
proof -
  obtain c b where e: "(c, b) \<in> set (categoryMap txs)" and o: "opp \<in> set (spikeOf (c, b))"
    using assms by (auto simp: findUnusualSpikes_def)
  have ne: "b \<noteq> []" and sub: "set b \<subseteq> set txs"
    using categoryMap_bucket [OF e] by simp_all
  from o have "transactions opp =
      [the (find (\<lambda>t. \<bar>amount t\<bar> = Max (set (map (\<lambda>t. \<bar>amount t\<bar>) b))) b)]"
    by (auto simp: spikeOf_def Let_def split: if_splits)
  then show ?thesis
    using spike_found [OF ne] sub by auto
qed

lemma opportunity_transactions_subset:
  assumes "opp \<in> set (findSavingsOpportunities txs)"
  shows "set (transactions opp) \<subseteq> set txs"
proof -
  from assms consider "opp \<in> set (findRecurringSubscriptions txs)"
    | "opp \<in> set (findHighFrequencySmallPurchases txs)"
    | "opp \<in> set (findUnusualSpikes txs)"
    by (auto simp: set_findSavingsOpportunities)
  then show ?thesis
  proof cases
    case 1 then show ?thesis by (rule recurring_transactions_subset)
  next
    case 2 then show ?thesis by (rule small_transactions_subset)
  next
    case 3 then show ?thesis by (rule spike_transactions_subset)
  qed
qed

section \<open>The claims\<close>

subsection \<open>C1: net cash flow against income and spending\<close>

text \<open>
  Claim C1, as amended. With the sums taken in exact arithmetic, every report that
  \<open>analyzeTransactions\<close> returns, for every list of transactions and every filter
  configuration, has \<open>netCashFlow = totalIncome - totalSpent\<close>.
\<close>

theorem netCashFlow_exact:
  assumes "analyzeTransactions L txs config = Some r"
  shows "netCashFlow r = totalIncome r - totalSpent r"
  using analyzeTransactions_Some(1-3) [OF assms] net_is_income_minus_spent by simp

text \<open>
  Witness for C1: the hypothesis holds on the three-transaction sample, and the equation
  follows there from the theorem.
\<close>

theorem netCashFlow_exact_witness:
  "analyzeTransactions isoLib roundingSample None \<noteq> None \<and>
   netCashFlow (the (analyzeTransactions isoLib roundingSample None))
   = totalIncome (the (analyzeTransactions isoLib roundingSample None))
     - totalSpent (the (analyzeTransactions isoLib roundingSample None))"
proof -
  have ex: "analyzeTransactions isoLib roundingSample None \<noteq> None"
    by code_simp
  then obtain r where r: "analyzeTransactions isoLib roundingSample None = Some r"
    by blast
  show ?thesis
    using netCashFlow_exact [OF r] r by simp
qed

text \<open>
  Counterexample to C1 as stated ("exactly"): in binary64, on amounts of 0.10, -0.30 and
  0.20, the running sum of the signed amounts is \<open>2^-55\<close> while income minus spending is
  \<open>2^-54\<close>, whether that last subtraction is rounded or not.
\<close>

theorem netCashFlow_binary64_counterexample:
  "calculateNetCashFlow64 (filterTransactions isoLib roundingSample None)
   \<noteq> sub64 (calculateTotalIncome64 (filterTransactions isoLib roundingSample None))
            (calculateTotalSpent64 (filterTransactions isoLib roundingSample None)) \<and>
   calculateNetCashFlow64 (filterTransactions isoLib roundingSample None)
   \<noteq> calculateTotalIncome64 (filterTransactions isoLib roundingSample None)
       - calculateTotalSpent64 (filterTransactions isoLib roundingSample None) \<and>
   calculateNetCashFlow64 (filterTransactions isoLib roundingSample None) = 1 / 2 ^ 55 \<and>
   calculateTotalIncome64 (filterTransactions isoLib roundingSample None)
     - calculateTotalSpent64 (filterTransactions isoLib roundingSample None) = 1 / 2 ^ 54"
  by code_simp

subsection \<open>C2: empty input\<close>

text \<open>
  Claim C2. On the empty list, and on every list that the filter empties,
  \<open>analyzeTransactions\<close> returns (no \<open>format\<close> call is made, so nothing is thrown), and
  the report has all three totals 0 and all five collections empty; it holds no
  \<open>NaN\<close> and no undefined value.
\<close>

theorem empty_input_zeroed:
  assumes "txs = [] \<or> filterTransactions L txs config = []"
  shows "analyzeTransactions L txs config =
           Some \<lparr> totalSpent = 0, totalIncome = 0, netCashFlow = 0, topSpendingCategories = [],
                  savingsOpportunities = [], budgetAnalysis = [], unusualTransactions = [],
                  monthlyTrends = [] \<rparr>"
proof -
  have "filterTransactions L txs config = []"
    using assms filterTransactions_Nil by auto
  then show ?thesis
    by (simp add: analyzeTransactions_def analyzeSpendingPatterns_Nil analyzeMonthlyTrends_Nil
        findSavingsOpportunities_Nil findUnusualTransactions_Nil analyzeBudgetPerformance_def
        calculateTotalSpent_def calculateTotalIncome_def calculateNetCashFlow_def)
qed

text \<open>
  Witness for C2: a list holding one deleted transaction filters down to empty, and the
  theorem gives the zeroed report for it and for the empty list.
\<close>

theorem empty_input_zeroed_witness:
  "(deletedOnly = [] \<or> filterTransactions isoLib deletedOnly None = []) \<and>
   analyzeTransactions isoLib deletedOnly None =
     Some \<lparr> totalSpent = 0, totalIncome = 0, netCashFlow = 0, topSpendingCategories = [],
            savingsOpportunities = [], budgetAnalysis = [], unusualTransactions = [],
            monthlyTrends = [] \<rparr> \<and>
   analyzeTransactions isoLib [] None =
     Some \<lparr> totalSpent = 0, totalIncome = 0, netCashFlow = 0, topSpendingCategories = [],
            savingsOpportunities = [], budgetAnalysis = [], unusualTransactions = [],
            monthlyTrends = [] \<rparr>"
proof -
  have h: "filterTransactions isoLib deletedOnly None = []"
    by code_simp
  show ?thesis
    using h empty_input_zeroed [of deletedOnly isoLib None] empty_input_zeroed [of "[]" isoLib None]
    by simp
qed

subsection \<open>C8: the category totals add up to the total spent\<close>

text \<open>
  Claim C8. In every report that \<open>analyzeTransactions\<close> returns, the \<open>totalAmount\<close>
  fields of the spending patterns add up to \<open>totalSpent\<close> (in exact arithmetic): the
  category buckets partition the negative-amount transactions that pass the filter.
\<close>

theorem pattern_totals_sum_to_totalSpent:
  assumes "analyzeTransactions L txs config = Some r"
  shows "sum_list (map totalAmount (topSpendingCategories r)) = totalSpent r"
  using analyzeSpendingPatterns_total [OF analyzeTransactions_Some(4) [OF assms]]
    analyzeTransactions_Some(1) [OF assms] by simp

text \<open>
  Witness for C8: on the sample ledger the report exists, its two patterns have the totals
  180 and 20, and the theorem gives their sum as the total spent.
\<close>

theorem pattern_totals_sum_to_totalSpent_witness:
  "analyzeTransactions isoLib ledger None \<noteq> None \<and>
   map totalAmount (topSpendingCategories (the (analyzeTransactions isoLib ledger None))) = [180, 20] \<and>
   sum_list (map totalAmount (topSpendingCategories (the (analyzeTransactions isoLib ledger None))))
   = totalSpent (the (analyzeTransactions isoLib ledger None))"
proof -
  have ex: "analyzeTransactions isoLib ledger None \<noteq> None"
    by code_simp
  then obtain r where r: "analyzeTransactions isoLib ledger None = Some r"
    by blast
  have v: "map totalAmount (topSpendingCategories (the (analyzeTransactions isoLib ledger None))) = [180, 20]"
    by code_simp
  show ?thesis
    using pattern_totals_sum_to_totalSpent [OF r] r v by simp
qed

subsection \<open>C4: percentages of the total\<close>

text \<open>
  Claim C4. In every report that \<open>analyzeTransactions\<close> returns: when \<open>totalSpent > 0\<close>
  the \<open>percentageOfTotal\<close> values of the patterns add up to 100 (in exact arithmetic);
  when \<open>totalSpent = 0\<close> there is no pattern at all, so every returned pattern has
  percentage 0; and for every returned pattern the divisor \<open>totalSpent\<close> is not zero
  and the percentage is the finite number \<open>totalAmount / totalSpent * 100\<close>, never
  \<open>NaN\<close> or an infinity.
\<close>

theorem percentages_guarded:
  assumes "analyzeTransactions L txs config = Some r"
  shows "(0 < totalSpent r \<longrightarrow> jssum (map percentageOfTotal (topSpendingCategories r)) = Fin 100) \<and>
         (totalSpent r = 0 \<longrightarrow> topSpendingCategories r = [] \<and>
            (\<forall>p\<in>set (topSpendingCategories r). percentageOfTotal p = Fin 0)) \<and>
         (\<forall>p\<in>set (topSpendingCategories r).
            totalSpent r \<noteq> 0 \<and> percentageOfTotal p = Fin (totalAmount p / totalSpent r * 100))"
proof -
  let ?f = "filterTransactions L txs config"
  have ps: "analyzeSpendingPatterns L ?f = Some (topSpendingCategories r)"
    and T: "totalSpent r = calculateTotalSpent ?f"
    using analyzeTransactions_Some [OF assms] by simp_all
  have a: "0 < totalSpent r \<longrightarrow> jssum (map percentageOfTotal (topSpendingCategories r)) = Fin 100"
    using percentages_sum [OF ps] T by simp
  have c: "\<forall>p\<in>set (topSpendingCategories r).
            totalSpent r \<noteq> 0 \<and> percentageOfTotal p = Fin (totalAmount p / totalSpent r * 100)"
    using percentage_of_pattern [OF ps] T by simp
  have b: "totalSpent r = 0 \<longrightarrow> topSpendingCategories r = [] \<and>
            (\<forall>p\<in>set (topSpendingCategories r). percentageOfTotal p = Fin 0)"
  proof
    assume z: "totalSpent r = 0"
    have "topSpendingCategories r = []"
    proof (cases "topSpendingCategories r")
      case Nil then show ?thesis .
    next
      case (Cons p ps')
      then have "p \<in> set (topSpendingCategories r)" by simp
      with c z show ?thesis by blast
    qed
    then show "topSpendingCategories r = [] \<and>
            (\<forall>p\<in>set (topSpendingCategories r). percentageOfTotal p = Fin 0)" by simp
  qed
  from a b c show ?thesis by blast
qed

text \<open>
  Witness for C4: the sample ledger has \<open>totalSpent = 200 > 0\<close> and percentages 90 and
  10; the income-only list has \<open>totalSpent = 0\<close> and no pattern. The theorem is used at
  both.
\<close>

theorem percentages_guarded_witness:
  "analyzeTransactions isoLib ledger None \<noteq> None \<and>
   0 < totalSpent (the (analyzeTransactions isoLib ledger None)) \<and>
   map percentageOfTotal (topSpendingCategories (the (analyzeTransactions isoLib ledger None)))
     = [Fin 90, Fin 10] \<and>
   jssum (map percentageOfTotal (topSpendingCategories (the (analyzeTransactions isoLib ledger None))))
     = Fin 100 \<and>
   analyzeTransactions isoLib incomeOnly None \<noteq> None \<and>
   totalSpent (the (analyzeTransactions isoLib incomeOnly None)) = 0 \<and>
   topSpendingCategories (the (analyzeTransactions isoLib incomeOnly None)) = []"
proof -
  have e1: "analyzeTransactions isoLib ledger None \<noteq> None"
    by code_simp
  then obtain r1 where r1: "analyzeTransactions isoLib ledger None = Some r1"
    by blast
  have p1: "0 < totalSpent (the (analyzeTransactions isoLib ledger None))"
    by code_simp
  have v1: "map percentageOfTotal (topSpendingCategories (the (analyzeTransactions isoLib ledger None)))
     = [Fin 90, Fin 10]"
    by code_simp
  have e2: "analyzeTransactions isoLib incomeOnly None \<noteq> None"
    by code_simp
  then obtain r2 where r2: "analyzeTransactions isoLib incomeOnly None = Some r2"
    by blast
  have z2: "totalSpent (the (analyzeTransactions isoLib incomeOnly None)) = 0"
    by code_simp
  have s1: "jssum (map percentageOfTotal (topSpendingCategories r1)) = Fin 100"
    using percentages_guarded [OF r1] p1 r1 by simp
  have s2: "topSpendingCategories r2 = []"
    using percentages_guarded [OF r2] z2 r2 by simp
  show ?thesis
    using e1 p1 v1 s1 e2 z2 s2 r1 r2 by simp
qed

subsection \<open>C7: trend classification\<close>




subsection \<open>C10: the divisor of the relative change\<close>



subsection \<open>C6: recurring subscriptions\<close>




subsection \<open>C9: frequent small purchases\<close>




subsection \<open>C3: deleted transactions\<close>

text \<open>
  Claim C3. A transaction whose \<open>deleted\<close> flag is true contributes to no part of the
  output, whatever its other fields: two input lists that agree once their deleted
  transactions are removed give the same result (the same totals, patterns, opportunities,
  outliers and monthly rows, or the same failure), for every filter configuration; and no
  deleted transaction occurs among the outliers or among the supporting transactions of an
  opportunity of a report.
\<close>

theorem deleted_excluded:
  "(filter (\<lambda>t. \<not> deleted t) txs = filter (\<lambda>t. \<not> deleted t) txs' \<longrightarrow>
      analyzeTransactions L txs config = analyzeTransactions L txs' config) \<and>
   (analyzeTransactions L txs config = Some r \<longrightarrow>
      (\<forall>t\<in>set (unusualTransactions r). \<not> deleted t) \<and>
      (\<forall>opp\<in>set (savingsOpportunities r). \<forall>t\<in>set (transactions opp). \<not> deleted t))"
proof -
  let ?F = "filterTransactions L txs config"
  have a: "analyzeTransactions L txs config = analyzeTransactions L txs' config"
    if "filter (\<lambda>t. \<not> deleted t) txs = filter (\<lambda>t. \<not> deleted t) txs'"
  proof -
    have "filterTransactions L txs config = filterTransactions L txs' config"
      using that filterTransactions_deleted [of L txs config] filterTransactions_deleted [of L txs' config]
      by simp
    then show ?thesis
      by (simp add: analyzeTransactions_def)
  qed
  have nd: "\<forall>t\<in>set ?F. \<not> deleted t"
    using filterTransactions_subset [of L txs config] by auto
  have b: "(\<forall>t\<in>set (unusualTransactions r). \<not> deleted t) \<and>
      (\<forall>opp\<in>set (savingsOpportunities r). \<forall>t\<in>set (transactions opp). \<not> deleted t)"
    if r: "analyzeTransactions L txs config = Some r"
  proof -
    have u: "set (unusualTransactions r) \<subseteq> set ?F"
      by (simp only: analyzeTransactions_Some(7) [OF r] findUnusualTransactions_subset)
    have o: "set (transactions opp) \<subseteq> set ?F" if "opp \<in> set (savingsOpportunities r)" for opp
      using that opportunity_transactions_subset [of opp ?F]
      by (simp only: analyzeTransactions_Some(5) [OF r])
    show ?thesis
      using u o nd by blast
  qed
  from a b show ?thesis by blast
qed

text \<open>
  Witness for C3: a list with a deleted transaction of 5000 in front agrees with the list
  without it once deleted transactions are removed; the theorem gives the same report for
  both, with an outlier and an opportunity, and nothing deleted in either.
\<close>

theorem deleted_excluded_witness:
  "filter (\<lambda>t. \<not> deleted t) mixedWithDeleted = filter (\<lambda>t. \<not> deleted t) mixed \<and>
   list_ex deleted mixedWithDeleted \<and>
   analyzeTransactions isoLib mixedWithDeleted None = analyzeTransactions isoLib mixed None \<and>
   analyzeTransactions isoLib mixedWithDeleted None \<noteq> None \<and>
   unusualTransactions (the (analyzeTransactions isoLib mixedWithDeleted None)) \<noteq> [] \<and>
   savingsOpportunities (the (analyzeTransactions isoLib mixedWithDeleted None)) \<noteq> [] \<and>
   list_all (\<lambda>t. \<not> deleted t)
     (unusualTransactions (the (analyzeTransactions isoLib mixedWithDeleted None))) \<and>
   list_all (\<lambda>opp. list_all (\<lambda>t. \<not> deleted t) (transactions opp))
     (savingsOpportunities (the (analyzeTransactions isoLib mixedWithDeleted None)))"
proof -
  have h: "filter (\<lambda>t. \<not> deleted t) mixedWithDeleted = filter (\<lambda>t. \<not> deleted t) mixed"
    by code_simp
  have d: "list_ex deleted mixedWithDeleted"
    by code_simp
  have e: "analyzeTransactions isoLib mixedWithDeleted None \<noteq> None"
    by code_simp
  then obtain r where r: "analyzeTransactions isoLib mixedWithDeleted None = Some r"
    by blast
  have n1: "unusualTransactions (the (analyzeTransactions isoLib mixedWithDeleted None)) \<noteq> []"
    by code_simp
  have n2: "savingsOpportunities (the (analyzeTransactions isoLib mixedWithDeleted None)) \<noteq> []"
    by code_simp
  have t1: "analyzeTransactions isoLib mixedWithDeleted None = analyzeTransactions isoLib mixed None"
    using deleted_excluded [of mixedWithDeleted mixed isoLib None r] h by blast
  have t2: "list_all (\<lambda>t. \<not> deleted t) (unusualTransactions r) \<and>
            list_all (\<lambda>opp. list_all (\<lambda>t. \<not> deleted t) (transactions opp)) (savingsOpportunities r)"
    using deleted_excluded [of mixedWithDeleted mixed isoLib None r] r
    by (simp add: list_all_iff)
  have t3: "list_all (\<lambda>t. \<not> deleted t)
              (unusualTransactions (the (analyzeTransactions isoLib mixedWithDeleted None))) \<and>
            list_all (\<lambda>opp. list_all (\<lambda>t. \<not> deleted t) (transactions opp))
              (savingsOpportunities (the (analyzeTransactions isoLib mixedWithDeleted None)))"
    using t2 by (simp only: r option.sel)
  from h d t1 e n1 n2 t3 show ?thesis
    by blast
qed

subsection \<open>C5: transfers without a category\<close>

text \<open>
  Claim C5 fails on the code. On two payments whose payee name begins with \<open>Transfer\<close>
  and whose category is absent, the resolved label is \<open>Credit Card Payment\<close> and the
  spending pattern bears it, but \<open>findRecurringSubscriptions\<close> labels its opportunity
  with \<open>category_name || 'Uncategorized'\<close> instead of \<open>getCategoryName\<close>: the two
  transactions are reported under \<open>Uncategorized\<close>.
\<close>

theorem transfer_reported_uncategorized:
  "list_all (\<lambda>t. startsWith (payee_name t) ''Transfer'' \<and> category_id t = None \<and>
                  category_name t = None \<and> getCategoryName t = ''Credit Card Payment'') transfers \<and>
   map category (topSpendingCategories (the (analyzeTransactions isoLib transfers None)))
     = [''Credit Card Payment''] \<and>
   map (\<lambda>opp. (otype opp, ocategory opp, transactions opp))
       (savingsOpportunities (the (analyzeTransactions isoLib transfers None)))
     = [(recurring_subscription, ''Uncategorized'', transfers)]"
  by code_simp

end
